theory Spec2Isabelle
  imports Complex_Main
begin

section \<open>JavaScript string primitives used by the validators\<close>

text \<open>
  The validators of \<^verbatim>\<open>utils/validation\<close> work on JavaScript strings. A string is
  modelled as a \<^typ>\<open>string\<close>, a list of 8-bit code units (the Latin-1 range of
  JavaScript's UTF-16 code units). Counts are natural numbers and declared image
  counts are integers; a JavaScript number holds them exactly below \<open>2 ^ 53\<close>.
\<close>

text \<open>White space as \<^verbatim>\<open>String.prototype.trim\<close> and the regex class \<^verbatim>\<open>\s\<close> see it
  (tab, line feed, vertical tab, form feed, carriage return, space, no-break space).\<close>

definition is_space :: "char \<Rightarrow> bool" where
  "is_space c \<longleftrightarrow>
     c = CHR 0x09 \<or> c = CHR 0x0A \<or> c = CHR 0x0B \<or> c = CHR 0x0C \<or>
     c = CHR 0x0D \<or> c = CHR 0x20 \<or> c = CHR 0xA0"

text \<open>The regex class \<^verbatim>\<open>\d\<close>.\<close>

definition is_digit :: "char \<Rightarrow> bool" where
  "is_digit c \<longleftrightarrow> 48 \<le> (of_char c :: nat) \<and> (of_char c :: nat) \<le> 57"

text \<open>\<^verbatim>\<open>s.trim()\<close>\<close>

definition trim :: "string \<Rightarrow> string" where
  "trim s = rev (dropWhile is_space (rev (dropWhile is_space s)))"

text \<open>\<^verbatim>\<open>s.split(',')\<close>: always at least one piece.\<close>

fun split_on :: "char \<Rightarrow> string \<Rightarrow> string list" where
  "split_on d [] = [[]]"
| "split_on d (c # cs) =
     (if c = d then [] # split_on d cs
      else (case split_on d cs of
              [] \<Rightarrow> [[c]]
            | x # xs \<Rightarrow> (c # x) # xs))"

text \<open>\<^verbatim>\<open>s.slice(1, -1)\<close>\<close>

definition slice_1_m1 :: "string \<Rightarrow> string" where
  "slice_1_m1 s = butlast (tl s)"

text \<open>\<^verbatim>\<open>s.includes(t)\<close>\<close>

fun starts_with :: "string \<Rightarrow> string \<Rightarrow> bool" where
  "starts_with s [] = True"
| "starts_with [] (t # ts) = False"
| "starts_with (c # cs) (t # ts) = (c = t \<and> starts_with cs ts)"

fun includes_str :: "string \<Rightarrow> string \<Rightarrow> bool" where
  "includes_str [] t = (t = [])"
| "includes_str (c # cs) t = (starts_with (c # cs) t \<or> includes_str cs t)"

text \<open>\<^verbatim>\<open>s.toLowerCase()\<close> on Latin-1 code units.\<close>

definition to_lower_char :: "char \<Rightarrow> char" where
  "to_lower_char c =
     (let n = (of_char c :: nat)
      in if (65 \<le> n \<and> n \<le> 90) \<or> (192 \<le> n \<and> n \<le> 222 \<and> n \<noteq> 215)
         then char_of (n + 32) else c)"

definition toLowerCase :: "string \<Rightarrow> string" where
  "toLowerCase s = map to_lower_char s"

text \<open>\<^verbatim>\<open>xs.join(sep)\<close>\<close>

fun join :: "string \<Rightarrow> string list \<Rightarrow> string" where
  "join sep [] = []"
| "join sep [x] = x"
| "join sep (x # y # ys) = x @ sep @ join sep (y # ys)"

text \<open>Decimal rendering of an integer inside a template literal.\<close>

fun show_nat :: "nat \<Rightarrow> string" where
  "show_nat n =
     (if n < 10 then [char_of (48 + n)]
      else show_nat (n div 10) @ [char_of (48 + n mod 10)])"

definition show_int :: "int \<Rightarrow> string" where
  "show_int i = (if i < 0 then CHR ''-'' # show_nat (nat (- i)) else show_nat (nat i))"

text \<open>\<^verbatim>\<open>(s.match(/c/g) || []).length\<close> for a single character \<open>c\<close>.\<close>

definition count_char :: "char \<Rightarrow> string \<Rightarrow> nat" where
  "count_char c s = length (filter (\<lambda>x. x = c) s)"

text \<open>
  \<^verbatim>\<open>s.match(/\{[^}]+\}/g)\<close>: the matches from left to right, none overlapping. A
  match starts at an opening brace, runs over one or more characters other than a
  closing brace and ends at the first closing brace. Where no match starts, the
  search moves on by one character. The result \<^verbatim>\<open>null\<close> is the empty list here.
\<close>

function match_blocks :: "string \<Rightarrow> string list" where
  "match_blocks [] = []"
| "match_blocks (c # cs) =
     (if c = CHR ''{''
         \<and> takeWhile (\<lambda>x. x \<noteq> CHR ''}'') cs \<noteq> []
         \<and> dropWhile (\<lambda>x. x \<noteq> CHR ''}'') cs \<noteq> []
      then (c # takeWhile (\<lambda>x. x \<noteq> CHR ''}'') cs @ [CHR ''}''])
             # match_blocks (tl (dropWhile (\<lambda>x. x \<noteq> CHR ''}'') cs))
      else match_blocks cs)"
  by pat_completeness auto
termination
proof (relation "measure length")
  show "wf (measure length)" by simp
next
  fix c :: char and cs :: string
  assume "c = CHR ''{''
         \<and> takeWhile (\<lambda>x. x \<noteq> CHR ''}'') cs \<noteq> []
         \<and> dropWhile (\<lambda>x. x \<noteq> CHR ''}'') cs \<noteq> []"
  have "length (tl (dropWhile (\<lambda>x. x \<noteq> CHR ''}'') cs)) \<le> length cs"
    using length_dropWhile_le [of "\<lambda>x. x \<noteq> CHR ''}''" cs] by simp
  then show "(tl (dropWhile (\<lambda>x. x \<noteq> CHR ''}'') cs), c # cs) \<in> measure length"
    by simp
next
  fix c :: char and cs :: string
  show "(cs, c # cs) \<in> measure length" by simp
qed

section \<open>Permutation parser\<close>

text \<open>\<^verbatim>\<open>calculatePermutationCount\<close>: the \<^verbatim>\<open>for\<close> loop over the matched blocks is a
  left fold; the \<^verbatim>\<open>catch\<close> branch is unreachable for a string argument.\<close>

definition block_options :: "string \<Rightarrow> string list" where
  "block_options block =
     filter (\<lambda>s. length s > 0) (map trim (split_on CHR '','' (slice_1_m1 block)))"

definition calculatePermutationCount :: "string \<Rightarrow> nat" where
  "calculatePermutationCount prompt =
     (let permutationBlocks = match_blocks prompt
      in if permutationBlocks = [] then 1
         else foldl (\<lambda>totalCount block. totalCount * length (block_options block))
                1 permutationBlocks)"

text \<open>\<^verbatim>\<open>hasValidPermutationSyntax\<close>\<close>

definition block_ok :: "string \<Rightarrow> bool" where
  "block_ok block =
     (let content = trim (slice_1_m1 block)
      in \<not> (content = [] \<or> \<not> includes_str content '',''))"

definition hasValidPermutationSyntax :: "string \<Rightarrow> bool" where
  "hasValidPermutationSyntax prompt =
     (let openBraces = count_char CHR ''{'' prompt;
          closeBraces = count_char CHR ''}'' prompt
      in if openBraces \<noteq> closeBraces then False
         else list_all block_ok (match_blocks prompt))"

section \<open>Data model (\<^verbatim>\<open>types/schema.ts\<close>)\<close>

text \<open>
  TypeScript types are erased at run time, so a field that the validators test is
  modelled with the values it can hold then: \<open>priority\<close> is a string, and an entry of
  \<open>optimal_subject_distribution\<close> is a number (as \<^verbatim>\<open>Record<string, number>\<close>
  declares) or a string such as \<^verbatim>\<open>"100%"\<close> (as the analysis backends emit).
  The object is an association list in the order of \<^verbatim>\<open>Object.values\<close>.
\<close>

datatype 'n js_value = JNumber 'n | JString string

datatype js_error = TypeError string

record style_analysis =
  primary_style :: string
  era_influence :: string
  color_palette :: "string list"
  key_characteristics :: "string list"
  best_subjects :: "string list"
  avoid_subjects :: "string list"

record 'n training_recommendations =
  recommended_dataset_size :: int
  optimal_subject_distribution :: "(string \<times> 'n js_value) list"

record permutation_batch =
  batch_number :: int
  batch_name :: string
  category :: string
  image_count :: int
  prompt :: string
  priority :: string
  batch_notes :: "string option"

record prompt_guidelines =
  keep_simple :: bool
  avoid_style_keywords :: "string list"
  recommended_additions :: "string list"

record 'n dataset_specification =
  sref_code :: string
  style_analysis :: style_analysis
  training_recommendations :: "'n training_recommendations"
  permutation_batches :: "permutation_batch list"
  prompt_guidelines :: prompt_guidelines

record validation_result =
  isValid :: bool
  errors :: "string list"
  warnings :: "string list"

record batch_validation = validation_result +
  calculatedCount :: nat
  hasSrefCode_field :: bool
  hasValidSyntax :: bool

section \<open>Batch validator\<close>

text \<open>
  The regex \<^verbatim>\<open>/--sref\s+(\d+)/\<close>. \<open>sref_at s\<close> is the match that starts at the
  head of \<open>s\<close>: the literal, one or more white-space characters, one or more digits
  (both runs greedy; the digits are the capture group). \<open>find_sref\<close> is the leftmost
  match.
\<close>

definition sref_at :: "string \<Rightarrow> string option" where
  "sref_at s =
     (if starts_with s ''--sref''
      then (let r = drop 6 s;
                ws = takeWhile is_space r;
                ds = takeWhile is_digit (dropWhile is_space r)
            in if ws \<noteq> [] \<and> ds \<noteq> [] then Some ds else None)
      else None)"

fun find_sref :: "string \<Rightarrow> string option" where
  "find_sref [] = None"
| "find_sref (c # cs) =
     (case sref_at (c # cs) of
        Some ds \<Rightarrow> Some ds
      | None \<Rightarrow> find_sref cs)"

definition hasSrefCode :: "string \<Rightarrow> bool" where
  "hasSrefCode s = (find_sref s \<noteq> None)"

definition extractSrefCode :: "string \<Rightarrow> string option" where
  "extractSrefCode s = find_sref s"

definition styleKeywords :: "string list" where
  "styleKeywords =
     [''retro'', ''vintage'', ''70s'', ''80s'', ''poster'', ''illustration'',
      ''watercolor'', ''stylized'']"

text \<open>An optional string argument is truthy when it is given and not empty.\<close>

definition truthy :: "string option \<Rightarrow> bool" where
  "truthy v = (case v of None \<Rightarrow> False | Some s \<Rightarrow> s \<noteq> [])"

definition render_opt :: "string option \<Rightarrow> string \<Rightarrow> string" where
  "render_opt v d = (case v of None \<Rightarrow> d | Some s \<Rightarrow> s)"

text \<open>The hard errors of \<^verbatim>\<open>validateBatch\<close>, in the order of the pushes.\<close>

definition batch_errors :: "permutation_batch \<Rightarrow> string option \<Rightarrow> string list" where
  "batch_errors batch expectedSrefCode =
     (let calculated = calculatePermutationCount (prompt batch);
          validSyntax = hasValidPermutationSyntax (prompt batch);
          hasSref = hasSrefCode (prompt batch);
          e1 = (if calculated \<noteq> 40
                then [''Batch generates '' @ show_nat calculated
                        @ '' images, must be exactly 40'']
                else []);
          e2 = (if \<not> validSyntax \<and> includes_str (prompt batch) ''{''
                then e1 @ [''Invalid permutation syntax'']
                else e1);
          e3 = (if \<not> hasSref then e2 @ [''Missing --sref code in prompt'']
                else if truthy expectedSrefCode
                then (let batchSref = extractSrefCode (prompt batch)
                      in if batchSref \<noteq> expectedSrefCode
                         then e2 @ [''SREF code mismatch: expected ''
                                      @ render_opt expectedSrefCode ''undefined''
                                      @ '', found '' @ render_opt batchSref ''null'']
                         else e2)
                else e2)
      in if priority batch \<notin> set [''high'', ''medium'', ''low'']
         then e3 @ [''Priority must be \"high\", \"medium\", or \"low\"'']
         else e3)"

text \<open>The warnings of \<^verbatim>\<open>validateBatch\<close>.\<close>

definition batch_warnings :: "permutation_batch \<Rightarrow> string list" where
  "batch_warnings batch =
     (let w1 = (if length (prompt batch) > 200
                then [''Prompt is quite long - consider simplifying'']
                else []);
          promptLower = toLowerCase (prompt batch);
          foundKeywords = filter (\<lambda>kw. includes_str promptLower kw) styleKeywords
      in if length foundKeywords > 0
         then w1 @ [''Consider removing style keywords ('' @ join '', '' foundKeywords
                      @ '') - SREF handles styling'']
         else w1)"

definition validateBatch :: "permutation_batch \<Rightarrow> string option \<Rightarrow> batch_validation" where
  "validateBatch batch expectedSrefCode =
     \<lparr> isValid = (length (batch_errors batch expectedSrefCode) = 0),
       errors = batch_errors batch expectedSrefCode,
       warnings = batch_warnings batch,
       calculatedCount = calculatePermutationCount (prompt batch),
       hasSrefCode_field = hasSrefCode (prompt batch),
       hasValidSyntax = hasValidPermutationSyntax (prompt batch) \<rparr>"

section \<open>Specification validator\<close>

text \<open>
  The distribution check computes with JavaScript numbers (IEEE doubles):
  \<^verbatim>\<open>parseFloat\<close>, \<^verbatim>\<open>+\<close>, \<^verbatim>\<open>-\<close>, \<^verbatim>\<open>Math.abs\<close>, \<^verbatim>\<open>>\<close> and
  \<^verbatim>\<open>toFixed\<close>. They are built into the language, not code of this repository, and
  are taken as a parameter: a record of the operations over a number type \<open>'n\<close>.
\<close>

record 'n js_number_ops =
  parseFloat :: "string \<Rightarrow> 'n"
  num_lit :: "int \<Rightarrow> 'n"
  num_add :: "'n \<Rightarrow> 'n \<Rightarrow> 'n"
  num_sub :: "'n \<Rightarrow> 'n \<Rightarrow> 'n"
  num_abs :: "'n \<Rightarrow> 'n"
  num_gt :: "'n \<Rightarrow> 'n \<Rightarrow> bool"
  toFixed :: "'n \<Rightarrow> nat \<Rightarrow> string"

text \<open>
  \<^verbatim>\<open>Object.values(distribution).map(p => parseFloat(p.replace('%', '')))\<close>: a number
  has no method \<^verbatim>\<open>replace\<close>, so the call raises a \<^verbatim>\<open>TypeError\<close> at the first entry
  that is a number; on a string, \<^verbatim>\<open>replace\<close> removes the first percent sign.
\<close>

fun percentages :: "'n js_number_ops \<Rightarrow> 'n js_value list \<Rightarrow> js_error + 'n list" where
  "percentages js [] = Inr []"
| "percentages js (JNumber n # ps) = Inl (TypeError ''p.replace is not a function'')"
| "percentages js (JString s # ps) =
     (case percentages js ps of
        Inl e \<Rightarrow> Inl e
      | Inr r \<Rightarrow> Inr (parseFloat js (remove1 CHR ''%'' s) # r))"

text \<open>The regex \<^verbatim>\<open>/^\d{10}$/\<close>.\<close>

definition ten_digits :: "string \<Rightarrow> bool" where
  "ten_digits s \<longleftrightarrow> length s = 10 \<and> list_all is_digit s"

text \<open>One round of the \<^verbatim>\<open>forEach\<close> over the batches, on the pair of the two lists.\<close>

definition fold_batch ::
  "string \<Rightarrow> string list \<times> string list \<Rightarrow> permutation_batch \<Rightarrow> string list \<times> string list"
where
  "fold_batch code acc batch =
     (let validation = validateBatch batch (Some code);
          es = (if \<not> isValid validation
                then fst acc @ [''Batch '' @ show_int (batch_number batch) @ '': ''
                                  @ join '', '' (errors validation)]
                else fst acc);
          ws = snd acc @ map (\<lambda>warning. ''Batch '' @ show_int (batch_number batch)
                                          @ '': '' @ warning) (warnings validation)
      in (es, ws))"

definition size_warnings :: "int \<Rightarrow> string list" where
  "size_warnings totalImages =
     (if totalImages < 50
      then [''Total dataset size is '' @ show_int totalImages @ '' - minimum 50 recommended'']
      else [])
     @ (if totalImages > 200
        then [''Total dataset size is '' @ show_int totalImages
                @ '' - consider reducing for more focused training'']
        else [])"

definition distribution_warning :: "'n js_number_ops \<Rightarrow> 'n list \<Rightarrow> string list" where
  "distribution_warning js ps =
     (let total = foldl (num_add js) (num_lit js 0) ps
      in if num_gt js (num_abs js (num_sub js total (num_lit js 100))) (num_lit js 5)
         then [''Subject distribution totals '' @ toFixed js total 1
                 @ ''% - should be close to 100%'']
         else [])"

definition validateDatasetSpecification ::
  "'n js_number_ops \<Rightarrow> 'n dataset_specification \<Rightarrow> js_error + validation_result"
where
  "validateDatasetSpecification js spec =
     (let batches = permutation_batches spec;
          w1 = (if \<not> ten_digits (sref_code spec)
                then [''SREF code should be a 10-digit number''] else []);
          e1 = (if length batches < 8
                then [''Only '' @ show_nat (length batches) @ '' batches - minimum 8 required'']
                else []);
          batchNumbers = map batch_number batches;
          e2 = (if length (remdups batchNumbers) \<noteq> length batchNumbers
                then e1 @ [''Duplicate batch numbers found''] else e1);
          ew = foldl (fold_batch (sref_code spec)) (e2, w1) batches;
          distribution = optimal_subject_distribution (training_recommendations spec)
      in case percentages js (map snd distribution) of
           Inl e \<Rightarrow> Inl e
         | Inr ps \<Rightarrow>
             (let w4 = snd ew @ distribution_warning js ps;
                  totalImages = foldl (\<lambda>sum b. sum + image_count b) 0 batches;
                  w5 = w4 @ size_warnings totalImages
              in Inr \<lparr> isValid = (length (fst ew) = 0),
                       errors = fst ew,
                       warnings = w5 \<rparr>))"

section \<open>Analysis orchestrator (\<^verbatim>\<open>src-tauri/src/lib.rs\<close>, \<^verbatim>\<open>offline_analyzer.rs\<close>)\<close>

subsection \<open>Settings and the collaborators' types\<close>

datatype analysis_mode = CloudAPI | Offline | Auto

datatype model_variant = Qwen2VL2B | Qwen2VL7B | Qwen2VL72B

record app_settings =
  analysis_mode :: analysis_mode
  offline_model_variant :: model_variant
  model_cache_dir :: "string option"
  auto_fallback :: bool
  keep_model_loaded :: bool

datatype model_status =
  NotDownloaded
| Downloading nat
| Ready
| Error string

text \<open>An \<^verbatim>\<open>f32\<close> amount of memory is the rational number it denotes; the only
  operation on it is the comparison, which is exact.\<close>

type_synonym f32 = rat

datatype offline_analysis_error =
  ModelNotFound
| InsufficientMemory f32 f32
| ModelLoadError string
| InferenceFailed string
| ImageProcessingError string

record analysis_result =
  data :: string
  mode_used :: string
  fallback_used :: bool

text \<open>
  What one run observes of the world outside the orchestrator: the settings
  snapshot (\<^verbatim>\<open>load_settings().unwrap_or_default()\<close>), the process environment, the
  image files, the remote backend (\<^verbatim>\<open>claude::analyze_style\<close>), the memory probe, the
  model manager and the inference engine. An error of a collaborator is its message.
\<close>

record env =
  settings :: app_settings
  env_var_is_ok :: "string \<Rightarrow> bool"
  read_and_encode_image :: "string \<Rightarrow> string + string"
  get_mime_type :: "string \<Rightarrow> string + string"
  claude_analyze_style :: "(string \<times> string) list \<Rightarrow> string \<Rightarrow> string + string"
  get_available_memory_gb :: f32
  check_model_status :: "model_variant \<Rightarrow> string option \<Rightarrow> string + model_status"
  get_model_path :: "model_variant \<Rightarrow> string option \<Rightarrow> string + string"
  image_open :: "string \<Rightarrow> string + string"
  qwen_new :: "string \<Rightarrow> model_variant \<Rightarrow> string + unit"
  qwen_analyze_images :: "string list \<Rightarrow> string \<Rightarrow> string + string"
  fmt_f32 :: "f32 \<Rightarrow> string"

text \<open>The calls a run makes to the two backends, and what it logs, in order.\<close>

datatype event =
  ClaudeRequest
| LogWarn string
| OfflineAnalysis
| ModelLoad
| Inference

subsection \<open>The local backend\<close>

text \<open>The messages that \<^verbatim>\<open>thiserror\<close> derives for \<^verbatim>\<open>OfflineAnalysisError\<close>.\<close>

fun display_offline_error :: "(f32 \<Rightarrow> string) \<Rightarrow> offline_analysis_error \<Rightarrow> string" where
  "display_offline_error fmt ModelNotFound =
     ''Model not found. Please download the model first.''"
| "display_offline_error fmt (InsufficientMemory required available) =
     ''Insufficient memory. Requires '' @ fmt required @ ''GB, available ''
       @ fmt available @ ''GB''"
| "display_offline_error fmt (ModelLoadError m) = ''Model loading failed: '' @ m"
| "display_offline_error fmt (InferenceFailed m) = ''Inference failed: '' @ m"
| "display_offline_error fmt (ImageProcessingError m) = ''Image processing failed: '' @ m"

definition check_system_requirements :: "env \<Rightarrow> app_settings \<Rightarrow> offline_analysis_error + unit" where
  "check_system_requirements e s =
     (let required_gb = (case offline_model_variant s of
                           Qwen2VL2B \<Rightarrow> 4
                         | Qwen2VL7B \<Rightarrow> 12
                         | Qwen2VL72B \<Rightarrow> 80);
          available = get_available_memory_gb e
      in if available < required_gb
         then Inl (InsufficientMemory required_gb available)
         else Inr ())"

fun load_images :: "env \<Rightarrow> string list \<Rightarrow> offline_analysis_error + string list" where
  "load_images e [] = Inr []"
| "load_images e (path # paths) =
     (case image_open e path of
        Inl m \<Rightarrow> Inl (ImageProcessingError m)
      | Inr img \<Rightarrow>
          (case load_images e paths of
             Inl err \<Rightarrow> Inl err
           | Inr imgs \<Rightarrow> Inr (img # imgs)))"

text \<open>\<^verbatim>\<open>candle_inference::build_qwen_prompt\<close>\<close>

definition build_qwen_prompt :: "string \<Rightarrow> nat \<Rightarrow> string" where
  "build_qwen_prompt sref num_images =
     (let nl = [CHR 0x0A]
      in ''<|im_start|>system'' @ nl
         @ ''You are Qwen, a vision-language AI assistant specialized in analyzing artistic styles.<|im_end|>'' @ nl
         @ ''<|im_start|>user'' @ nl
         @ concat (replicate num_images ''<|vision_start|><|image_pad|><|vision_end|>'')
         @ ''Analyze these '' @ show_nat num_images
         @ '' style reference images for Midjourney SREF code '' @ sref @ ''.'' @ nl
         @ nl
         @ ''Generate a LoRA training dataset specification with:'' @ nl
         @ ''1. Style analysis (colors, patterns, era, characteristics)'' @ nl
         @ ''2. 8-10 permutation batches with EXACTLY 40 images each'' @ nl
         @ ''3. Use format: {{subjects}} with {{modifiers}} --sref '' @ sref @ nl
         @ nl
         @ ''Output ONLY valid JSON matching the expected schema.<|im_end|>'' @ nl
         @ ''<|im_start|>assistant'' @ nl)"

text \<open>\<^verbatim>\<open>offline_analyzer::analyze_style\<close>: the two pre-flight checks, then the model
  path, the images, the prompt, the model and the inference; every \<^verbatim>\<open>?\<close> is an
  early return.\<close>

definition offline_analyze_style ::
  "env \<Rightarrow> string list \<Rightarrow> string \<Rightarrow> app_settings
     \<Rightarrow> event list \<times> (offline_analysis_error + string)"
where
  "offline_analyze_style e image_paths sref s =
     (case check_system_requirements e s of
        Inl err \<Rightarrow> ([OfflineAnalysis], Inl err)
      | Inr _ \<Rightarrow>
     (case check_model_status e (offline_model_variant s) (model_cache_dir s) of
        Inl m \<Rightarrow> ([OfflineAnalysis], Inl (ModelLoadError m))
      | Inr model_status \<Rightarrow>
     if model_status \<noteq> Ready then ([OfflineAnalysis], Inl ModelNotFound)
     else
     (case get_model_path e (offline_model_variant s) (model_cache_dir s) of
        Inl m \<Rightarrow> ([OfflineAnalysis], Inl (ModelLoadError m))
      | Inr model_path \<Rightarrow>
     (case load_images e image_paths of
        Inl err \<Rightarrow> ([OfflineAnalysis], Inl err)
      | Inr images \<Rightarrow>
     (let qwen_prompt = build_qwen_prompt sref (length images)
      in case qwen_new e model_path (offline_model_variant s) of
           Inl m \<Rightarrow> ([OfflineAnalysis, ModelLoad], Inl (ModelLoadError m))
         | Inr _ \<Rightarrow>
             (case qwen_analyze_images e images qwen_prompt of
                Inl m \<Rightarrow> ([OfflineAnalysis, ModelLoad, Inference], Inl (InferenceFailed m))
              | Inr response \<Rightarrow>
                  ([OfflineAnalysis, ModelLoad, Inference], Inr response)))))))"

subsection \<open>The command \<^verbatim>\<open>analyze_style\<close>\<close>

definition has_api_key :: "env \<Rightarrow> bool" where
  "has_api_key e \<longleftrightarrow> env_var_is_ok e ''CLAUDE_API_KEY'' \<or> env_var_is_ok e ''ANTHROPIC_API_KEY''"

definition use_api :: "env \<Rightarrow> bool" where
  "use_api e =
     (case analysis_mode (settings e) of
        CloudAPI \<Rightarrow> has_api_key e
      | Offline \<Rightarrow> False
      | Auto \<Rightarrow> has_api_key e)"

text \<open>The \<^verbatim>\<open>map\<close> over the image paths, collected into a \<^verbatim>\<open>Result\<close>: the first
  failure ends it.\<close>

fun encode_images :: "env \<Rightarrow> string list \<Rightarrow> string + (string \<times> string) list" where
  "encode_images e [] = Inr []"
| "encode_images e (path # paths) =
     (case read_and_encode_image e path of
        Inl m \<Rightarrow> Inl (''Failed to read image '' @ path @ '': '' @ m)
      | Inr base64_data \<Rightarrow>
          (case get_mime_type e path of
             Inl m \<Rightarrow> Inl (''Invalid image format '' @ path @ '': '' @ m)
           | Inr mime_type \<Rightarrow>
               (case encode_images e paths of
                  Inl err \<Rightarrow> Inl err
                | Inr rest \<Rightarrow> Inr ((base64_data, mime_type) # rest))))"

text \<open>The last \<^verbatim>\<open>match\<close> of the command: offline mode, either primary or fallback.\<close>

definition offline_mode ::
  "env \<Rightarrow> string list \<Rightarrow> string \<Rightarrow> event list \<times> (string + analysis_result)"
where
  "offline_mode e image_paths sref =
     (case offline_analyze_style e image_paths sref (settings e) of
        (tr, Inr result) \<Rightarrow>
          (tr, Inr \<lparr> data = result, mode_used = ''offline'', fallback_used = use_api e \<rparr>)
      | (tr, Inl err) \<Rightarrow>
          (tr, Inl (''Offline analysis error: '' @ display_offline_error (fmt_f32 e) err)))"

definition analyze_style ::
  "env \<Rightarrow> string list \<Rightarrow> string \<Rightarrow> event list \<times> (string + analysis_result)"
where
  "analyze_style e image_paths sref =
     (if use_api e
      then (case encode_images e image_paths of
              Inl err \<Rightarrow> ([], Inl err)
            | Inr image_data \<Rightarrow>
                (case claude_analyze_style e image_data sref of
                   Inr result \<Rightarrow>
                     ([ClaudeRequest],
                      Inr \<lparr> data = result, mode_used = ''cloud'', fallback_used = False \<rparr>)
                 | Inl err \<Rightarrow>
                     if auto_fallback (settings e)
                     then (let (tr, r) = offline_mode e image_paths sref
                           in (ClaudeRequest
                                 # LogWarn (''API analysis failed: '' @ err
                                             @ ''. Attempting offline fallback...'')
                                 # tr, r))
                     else ([ClaudeRequest], Inl (''Claude API error: '' @ err))))
      else offline_mode e image_paths sref)"

section \<open>The parser as the specification words it\<close>






section \<open>Concrete inputs\<close>

text \<open>
  JavaScript numbers restricted to the integers and \<^verbatim>\<open>NaN\<close> (\<open>None\<close>), where the
  arithmetic of doubles is exact below \<open>2 ^ 53\<close>. \<open>parse_integer\<close> agrees with
  \<^verbatim>\<open>parseFloat\<close> on a string whose numeric prefix is an unsigned integer literal,
  such as \<^verbatim>\<open>"100"\<close>, and on a string with no numeric prefix.
\<close>

definition parse_integer :: "string \<Rightarrow> int option" where
  "parse_integer s =
     (let ds = takeWhile is_digit (dropWhile is_space s)
      in if ds = [] then None
         else Some (foldl (\<lambda>a c. 10 * a + (int (of_char c) - 48)) 0 ds))"

definition integer_ops :: "int option js_number_ops" where
  "integer_ops =
     \<lparr> parseFloat = parse_integer,
       num_lit = Some,
       num_add = (\<lambda>a b. case (a, b) of (Some x, Some y) \<Rightarrow> Some (x + y) | _ \<Rightarrow> None),
       num_sub = (\<lambda>a b. case (a, b) of (Some x, Some y) \<Rightarrow> Some (x - y) | _ \<Rightarrow> None),
       num_abs = map_option abs,
       num_gt = (\<lambda>a b. case (a, b) of (Some x, Some y) \<Rightarrow> x > y | _ \<Rightarrow> False),
       toFixed = (\<lambda>a d. case a of
                           None \<Rightarrow> ''NaN''
                         | Some x \<Rightarrow> show_int x @ ''.'' @ replicate d CHR ''0'') \<rparr>"

definition stub_style_analysis :: style_analysis where
  "stub_style_analysis =
     \<lparr> primary_style = ''stub'', era_influence = ''stub'', color_palette = [''stub''],
       key_characteristics = [''stub''], best_subjects = [''stub''],
       avoid_subjects = [''stub''] \<rparr>"

definition stub_guidelines :: prompt_guidelines where
  "stub_guidelines =
     \<lparr> keep_simple = True, avoid_style_keywords = [''stub''],
       recommended_additions = [''stub''] \<rparr>"

text \<open>The specification that the inference stub of \<^verbatim>\<open>candle_inference.rs\<close> returns:
  no batches, and a distribution whose one value is the string \<^verbatim>\<open>"100%"\<close>.\<close>

definition stub_spec :: "int option dataset_specification" where
  "stub_spec =
     \<lparr> sref_code = ''stub'',
       style_analysis = stub_style_analysis,
       training_recommendations =
         \<lparr> recommended_dataset_size = 100,
           optimal_subject_distribution = [(''stub'', JString ''100%'')] \<rparr>,
       permutation_batches = [],
       prompt_guidelines = stub_guidelines \<rparr>"

text \<open>What the validator returns for it.\<close>

definition stub_result :: validation_result where
  "stub_result =
     \<lparr> isValid = False,
       errors = [''Only 0 batches - minimum 8 required''],
       warnings = [''SREF code should be a 10-digit number'',
                   ''Total dataset size is 0 - minimum 50 recommended''] \<rparr>"

text \<open>Specifications that conform to \<^verbatim>\<open>TrainingRecommendations\<close>: the distribution
  maps category names to numbers.\<close>

definition numeric_spec :: "int option dataset_specification" where
  "numeric_spec =
     stub_spec \<lparr> sref_code := ''1234567890'',
                 training_recommendations :=
                   \<lparr> recommended_dataset_size = 100,
                     optimal_subject_distribution =
                       [(''landscapes'', JNumber (Some 60)),
                        (''portraits'', JNumber (Some 40))] \<rparr> \<rparr>"

definition eighty_spec :: "int option dataset_specification" where
  "eighty_spec =
     stub_spec \<lparr> sref_code := ''1234567890'',
                 training_recommendations :=
                   \<lparr> recommended_dataset_size = 100,
                     optimal_subject_distribution =
                       [(''landscapes'', JNumber (Some 50)),
                        (''portraits'', JNumber (Some 30))] \<rparr> \<rparr>"

definition good_batch :: permutation_batch where
  "good_batch =
     \<lparr> batch_number = 1, batch_name = ''Coastal scenes'', category = ''landscapes'',
       image_count = 40,
       prompt = ''{cliff, beach, harbor, dune, reef} at {dawn, noon, dusk, night, storm, fog, rain, snow} --sref 1234567890'',
       priority = ''high'', batch_notes = None \<rparr>"

text \<open>As \<open>good_batch\<close>, with a stray closing brace after the second group.\<close>

definition stray_brace_batch :: permutation_batch where
  "stray_brace_batch =
     good_batch \<lparr> prompt := ''{cliff, beach, harbor, dune, reef} at {dawn, noon, dusk, night, storm, fog, rain, snow}} --sref 1234567890'' \<rparr>"

text \<open>Runs of the orchestrator. In \<open>base_env\<close> the settings are the defaults
  (\<^verbatim>\<open>AppSettings::default()\<close>), a key is set, and both backends succeed.\<close>

definition default_settings :: app_settings where
  "default_settings =
     \<lparr> analysis_mode = Auto, offline_model_variant = Qwen2VL2B, model_cache_dir = None,
       auto_fallback = True, keep_model_loaded = True \<rparr>"

definition base_env :: env where
  "base_env =
     \<lparr> settings = default_settings,
       env_var_is_ok = (\<lambda>name. name = ''ANTHROPIC_API_KEY''),
       read_and_encode_image = (\<lambda>path. Inr ''aGVsbG8=''),
       get_mime_type = (\<lambda>path. Inr ''image/png''),
       claude_analyze_style = (\<lambda>image_data sref. Inr ''remote specification JSON''),
       get_available_memory_gb = 16,
       check_model_status = (\<lambda>variant dir. Inr Ready),
       get_model_path = (\<lambda>variant dir. Inr ''/cache/models/qwen2-vl-2b''),
       image_open = (\<lambda>path. Inr ''pixels''),
       qwen_new = (\<lambda>path variant. Inr ()),
       qwen_analyze_images = (\<lambda>images p. Inr ''local specification JSON''),
       fmt_f32 = (\<lambda>x. ''?'') \<rparr>"

text \<open>The remote backend fails; fallback is on and the local backend is ready.\<close>

definition env_remote_down :: env where
  "env_remote_down =
     base_env \<lparr> claude_analyze_style := (\<lambda>image_data sref. Inl ''rate limited'') \<rparr>"

text \<open>The remote backend fails and fallback is off.\<close>

definition env_no_fallback :: env where
  "env_no_fallback =
     env_remote_down \<lparr> settings := default_settings \<lparr> auto_fallback := False \<rparr> \<rparr>"

text \<open>The remote backend fails, fallback is on, and the model is not downloaded.\<close>

definition env_both_down :: env where
  "env_both_down =
     env_remote_down \<lparr> check_model_status := (\<lambda>variant dir. Inr NotDownloaded) \<rparr>"

text \<open>The remote backend fails, fallback is on, and the inference fails.\<close>

definition env_inference_fails :: env where
  "env_inference_fails =
     env_remote_down \<lparr> qwen_analyze_images := (\<lambda>images p. Inl ''out of memory'') \<rparr>"

text \<open>Mode \<^verbatim>\<open>CloudAPI\<close>, no key in the environment, fallback off; the local backend
  is ready.\<close>

definition env_remote_no_key :: env where
  "env_remote_no_key =
     base_env \<lparr> settings := default_settings \<lparr> analysis_mode := CloudAPI,
                                               auto_fallback := False \<rparr>,
                env_var_is_ok := (\<lambda>name. False) \<rparr>"

section \<open>The permutation count\<close>










section \<open>The syntax check\<close>










section \<open>Hard errors of a batch\<close>

lemma batch_errors_empty:
  assumes "calculatePermutationCount (prompt b) = 40"
    and "hasValidPermutationSyntax (prompt b)"
    and "extractSrefCode (prompt b) = Some code"
    and "priority b \<in> {''high'', ''medium'', ''low''}"
  shows "batch_errors b (Some code) = []"
proof -
  from assms(3) have "hasSrefCode (prompt b)"
    by (simp add: hasSrefCode_def extractSrefCode_def)
  with assms show ?thesis
    by (simp add: batch_errors_def Let_def)
qed

text \<open>
  Claim C6, as amended. For every batch whose template passes the syntax check, whose
  expansion count equals the fixed per-batch target of 40, whose marker embeds exactly
  the expected style code, and whose priority is one of high, medium, low,
  \<^verbatim>\<open>validateBatch\<close> returns an empty hard-error list.
\<close>

theorem validateBatch_no_hard_errors:
  assumes "calculatePermutationCount (prompt b) = 40"
    and "hasValidPermutationSyntax (prompt b)"
    and "extractSrefCode (prompt b) = Some code"
    and "priority b \<in> {''high'', ''medium'', ''low''}"
  shows "errors (validateBatch b (Some code)) = [] \<and> isValid (validateBatch b (Some code))"
  using batch_errors_empty [OF assms] by (simp add: validateBatch_def)

lemma good_batch_count: "calculatePermutationCount (prompt good_batch) = 40"
  by (simp add: good_batch_def calculatePermutationCount_def block_options_def slice_1_m1_def
      trim_def is_space_def)

lemma good_batch_syntax: "hasValidPermutationSyntax (prompt good_batch)"
  by (simp add: good_batch_def hasValidPermutationSyntax_def count_char_def block_ok_def
      slice_1_m1_def trim_def is_space_def)

lemma good_batch_sref: "extractSrefCode (prompt good_batch) = Some ''1234567890''"
  by (simp add: good_batch_def extractSrefCode_def sref_at_def is_space_def is_digit_def)

theorem validateBatch_no_hard_errors_witness:
  "calculatePermutationCount (prompt good_batch) = 40
   \<and> hasValidPermutationSyntax (prompt good_batch)
   \<and> extractSrefCode (prompt good_batch) = Some ''1234567890''
   \<and> priority good_batch = ''high''
   \<and> errors (validateBatch good_batch (Some ''1234567890'')) = []
   \<and> isValid (validateBatch good_batch (Some ''1234567890''))"
proof -
  have p: "priority good_batch = ''high''" by (simp add: good_batch_def)
  then have p': "priority good_batch \<in> {''high'', ''medium'', ''low''}" by simp
  from validateBatch_no_hard_errors [OF good_batch_count good_batch_syntax good_batch_sref p']
  show ?thesis using good_batch_count good_batch_syntax good_batch_sref p by simp
qed

text \<open>
  Claim C6 as stated fails: a template with a stray closing brace expands to 40, carries
  the expected marker and has a valid priority, and \<^verbatim>\<open>validateBatch\<close> reports the hard
  error of malformed syntax.
\<close>

theorem stray_brace_is_hard_error:
  "calculatePermutationCount (prompt stray_brace_batch) = 40
   \<and> extractSrefCode (prompt stray_brace_batch) = Some ''1234567890''
   \<and> priority stray_brace_batch = ''high''
   \<and> errors (validateBatch stray_brace_batch (Some ''1234567890''))
       = [''Invalid permutation syntax'']"
proof -
  have c: "calculatePermutationCount (prompt stray_brace_batch) = 40"
    by (simp add: stray_brace_batch_def calculatePermutationCount_def block_options_def slice_1_m1_def
      trim_def is_space_def)
  have s: "\<not> hasValidPermutationSyntax (prompt stray_brace_batch)"
    by (simp add: stray_brace_batch_def hasValidPermutationSyntax_def count_char_def)
  have x: "extractSrefCode (prompt stray_brace_batch) = Some ''1234567890''"
    by (simp add: stray_brace_batch_def extractSrefCode_def sref_at_def is_space_def is_digit_def)
  have p: "priority stray_brace_batch = ''high''"
    by (simp add: stray_brace_batch_def good_batch_def)
  have i: "includes_str (prompt stray_brace_batch) ''{''"
    by (simp add: stray_brace_batch_def)
  have "batch_errors stray_brace_batch (Some ''1234567890'') = [''Invalid permutation syntax'']"
    using c s x p i
    by (simp add: batch_errors_def Let_def hasSrefCode_def extractSrefCode_def truthy_def)
  with c x p show ?thesis by (simp add: validateBatch_def)
qed

section \<open>Results of the validators\<close>

lemma char_of_digits:
  "char_of (48::nat) = CHR ''0''" "char_of (49::nat) = CHR ''1''"
  "char_of (50::nat) = CHR ''2''" "char_of (51::nat) = CHR ''3''"
  "char_of (52::nat) = CHR ''4''" "char_of (53::nat) = CHR ''5''"
  "char_of (54::nat) = CHR ''6''" "char_of (55::nat) = CHR ''7''"
  "char_of (56::nat) = CHR ''8''" "char_of (57::nat) = CHR ''9''"
  by code_simp+

lemma percentages_raises_iff:
  "percentages js vs = Inl (TypeError ''p.replace is not a function'')
     \<longleftrightarrow> (\<exists>n. JNumber n \<in> set vs)"
proof (induction vs)
  case Nil
  show ?case by simp
next
  case (Cons v vs)
  show ?case
  proof (cases v)
    case (JNumber n)
    then show ?thesis by auto
  next
    case (JString s)
    with Cons show ?thesis by (auto split: sum.splits)
  qed
qed

lemma percentages_cases:
  "percentages js vs = Inl (TypeError ''p.replace is not a function'')
   \<or> (\<exists>ps. percentages js vs = Inr ps)"
proof (induction vs)
  case Nil
  show ?case by simp
next
  case (Cons v vs)
  then show ?case by (cases v) auto
qed

text \<open>\<^verbatim>\<open>validateDatasetSpecification\<close> raises exactly when some value of the
  distribution is a number, and returns a result otherwise.\<close>

lemma validateDatasetSpecification_raises_iff:
  "validateDatasetSpecification js spec = Inl (TypeError ''p.replace is not a function'')
     \<longleftrightarrow> (\<exists>n. JNumber n
               \<in> set (map snd (optimal_subject_distribution (training_recommendations spec))))"
proof -
  let ?vs = "map snd (optimal_subject_distribution (training_recommendations spec))"
  have "validateDatasetSpecification js spec = Inl (TypeError ''p.replace is not a function'')
        \<longleftrightarrow> percentages js ?vs = Inl (TypeError ''p.replace is not a function'')"
    by (cases "percentages js ?vs") (simp_all add: validateDatasetSpecification_def Let_def)
  then show ?thesis
    using percentages_raises_iff [of js ?vs] by simp
qed

lemma validateDatasetSpecification_returns_iff:
  "(\<exists>r. validateDatasetSpecification js spec = Inr r)
     \<longleftrightarrow> (\<forall>v \<in> set (map snd (optimal_subject_distribution (training_recommendations spec))).
            \<exists>s. v = JString s)"
proof -
  let ?vs = "map snd (optimal_subject_distribution (training_recommendations spec))"
  have "(\<exists>r. validateDatasetSpecification js spec = Inr r) \<longleftrightarrow> (\<exists>ps. percentages js ?vs = Inr ps)"
    by (cases "percentages js ?vs") (simp_all add: validateDatasetSpecification_def Let_def)
  also have "\<dots> \<longleftrightarrow> \<not> (\<exists>n. JNumber n \<in> set ?vs)"
    using percentages_cases [of js ?vs] percentages_raises_iff [of js ?vs] by auto
  also have "\<dots> \<longleftrightarrow> (\<forall>v \<in> set ?vs. \<exists>s. v = JString s)"
  proof
    assume a: "\<not> (\<exists>n. JNumber n \<in> set ?vs)"
    show "\<forall>v \<in> set ?vs. \<exists>s. v = JString s"
    proof
      fix v assume "v \<in> set ?vs"
      with a show "\<exists>s. v = JString s" by (cases v) auto
    qed
  next
    assume "\<forall>v \<in> set ?vs. \<exists>s. v = JString s"
    then show "\<not> (\<exists>n. JNumber n \<in> set ?vs)" by auto
  qed
  finally show ?thesis .
qed

text \<open>
  Claim C10. The \<open>isValid\<close> field that \<^verbatim>\<open>validateBatch\<close> returns, and the one that
  \<^verbatim>\<open>validateDatasetSpecification\<close> returns, is true if and only if the returned list of
  errors is empty; the warnings play no part in it.
\<close>

theorem isValid_iff_no_errors:
  "isValid (validateBatch b c) = (errors (validateBatch b c) = [])
   \<and> (validateDatasetSpecification js spec = Inr r \<longrightarrow> isValid r = (errors r = []))"
proof (intro conjI impI)
  show "isValid (validateBatch b c) = (errors (validateBatch b c) = [])"
    by (simp add: validateBatch_def)
  assume "validateDatasetSpecification js spec = Inr r"
  then show "isValid r = (errors r = [])"
    by (cases "percentages js (map snd (optimal_subject_distribution (training_recommendations spec)))")
       (auto simp: validateDatasetSpecification_def Let_def)
qed

lemma stub_spec_result: "validateDatasetSpecification integer_ops stub_spec = Inr stub_result"
  by (simp add: validateDatasetSpecification_def stub_spec_def stub_result_def ten_digits_def
      percentages.simps integer_ops_def parse_integer_def is_space_def is_digit_def
      distribution_warning_def size_warnings_def show_int_def char_of_digits)

theorem isValid_iff_no_errors_witness:
  "validateDatasetSpecification integer_ops stub_spec = Inr stub_result
   \<and> isValid stub_result = (errors stub_result = [])
   \<and> isValid (validateBatch good_batch None) = (errors (validateBatch good_batch None) = [])"
proof -
  from isValid_iff_no_errors [of good_batch None integer_ops stub_spec stub_result]
  have "isValid (validateBatch good_batch None) = (errors (validateBatch good_batch None) = [])"
    and "validateDatasetSpecification integer_ops stub_spec = Inr stub_result
         \<longrightarrow> isValid stub_result = (errors stub_result = [])"
    by simp_all
  with stub_spec_result show ?thesis by simp
qed

text \<open>
  Claim C2 asks that the validators never raise on a specification that conforms to the
  data model. \<^verbatim>\<open>validateBatch\<close> is total. \<^verbatim>\<open>validateDatasetSpecification\<close> raises a
  \<^verbatim>\<open>TypeError\<close> on the conforming specification \<open>numeric_spec\<close>, whose distribution
  maps \<^verbatim>\<open>landscapes\<close> to 60 and \<^verbatim>\<open>portraits\<close> to 40: it calls \<^verbatim>\<open>replace\<close> on the
  number.
\<close>

theorem numeric_distribution_raises:
  "validateDatasetSpecification js numeric_spec = Inl (TypeError ''p.replace is not a function'')"
  by (simp add: validateDatasetSpecification_def numeric_spec_def stub_spec_def)

text \<open>
  Claim C9 asks for a warning, and no hard error, when the distribution sums to 80. On
  \<open>eighty_spec\<close>, whose distribution maps \<^verbatim>\<open>landscapes\<close> to 50 and \<^verbatim>\<open>portraits\<close> to
  30, \<^verbatim>\<open>validateDatasetSpecification\<close> returns no result at all: it raises the
  \<^verbatim>\<open>TypeError\<close> of claim C2 before the sum is formed.
\<close>

theorem distribution_of_eighty_raises:
  "validateDatasetSpecification js eighty_spec = Inl (TypeError ''p.replace is not a function'')"
  by (simp add: validateDatasetSpecification_def eighty_spec_def stub_spec_def)

text \<open>On values that are percentage strings the check does warn outside \<open>100 \<plusminus> 5\<close>
  (here with integer values, where the arithmetic of doubles is exact).\<close>

lemma distribution_warning_on_strings:
  "distribution_warning integer_ops (map (parseFloat integer_ops) [''50'', ''30''])
     = [''Subject distribution totals 80.0% - should be close to 100%'']"
  "distribution_warning integer_ops (map (parseFloat integer_ops) [''60'', ''45'']) = []"
  "distribution_warning integer_ops (map (parseFloat integer_ops) [''60'', ''46''])
     = [''Subject distribution totals 106.0% - should be close to 100%'']"
  by (simp_all add: distribution_warning_def integer_ops_def parse_integer_def is_space_def
      is_digit_def show_int_def char_of_digits)

section \<open>Runs of the orchestrator\<close>

lemma remote_failure_with_fallback:
  assumes "use_api e"
    and "encode_images e paths = Inr image_data"
    and "claude_analyze_style e image_data sref = Inl remote_err"
    and "auto_fallback (settings e)"
  shows "analyze_style e paths sref =
           (ClaudeRequest
              # LogWarn (''API analysis failed: '' @ remote_err @ ''. Attempting offline fallback...'')
              # fst (offline_mode e paths sref),
            snd (offline_mode e paths sref))"
  using assms by (simp add: analyze_style_def split: prod.splits)

text \<open>
  Claim C1, as amended. For every run in which the remote attempt fails, fallback is
  enabled and the local attempt also fails (in pre-flight or in inference), the
  terminal error of \<^verbatim>\<open>analyze_style\<close> is \<^verbatim>\<open>Offline analysis error:\<close> followed by the
  message of the local cause; the remote cause is written to the log as a warning
  before the local attempt.
\<close>

theorem fallback_failure_reports_local_cause:
  assumes "use_api e"
    and "encode_images e paths = Inr image_data"
    and "claude_analyze_style e image_data sref = Inl remote_err"
    and "auto_fallback (settings e)"
    and "offline_analyze_style e paths sref (settings e) = (tr, Inl local_err)"
  shows "analyze_style e paths sref =
           (ClaudeRequest
              # LogWarn (''API analysis failed: '' @ remote_err @ ''. Attempting offline fallback...'')
              # tr,
            Inl (''Offline analysis error: '' @ display_offline_error (fmt_f32 e) local_err))"
  using assms(5) by (simp add: remote_failure_with_fallback [OF assms(1-4)] offline_mode_def)

theorem fallback_failure_reports_local_cause_witness:
  "use_api env_inference_fails
   \<and> encode_images env_inference_fails [''ref1.png''] = Inr [(''aGVsbG8='', ''image/png'')]
   \<and> claude_analyze_style env_inference_fails [(''aGVsbG8='', ''image/png'')] ''1234567890''
       = Inl ''rate limited''
   \<and> auto_fallback (settings env_inference_fails)
   \<and> offline_analyze_style env_inference_fails [''ref1.png''] ''1234567890''
         (settings env_inference_fails)
       = ([OfflineAnalysis, ModelLoad, Inference], Inl (InferenceFailed ''out of memory''))
   \<and> analyze_style env_inference_fails [''ref1.png''] ''1234567890'' =
       ([ClaudeRequest,
         LogWarn ''API analysis failed: rate limited. Attempting offline fallback...'',
         OfflineAnalysis, ModelLoad, Inference],
        Inl ''Offline analysis error: Inference failed: out of memory'')"
proof -
  have a: "use_api env_inference_fails"
    by (simp add: env_inference_fails_def env_remote_down_def base_env_def default_settings_def
        use_api_def has_api_key_def offline_analyze_style_def check_system_requirements_def)
  have b: "encode_images env_inference_fails [''ref1.png''] = Inr [(''aGVsbG8='', ''image/png'')]"
    by (simp add: env_inference_fails_def env_remote_down_def base_env_def default_settings_def)
  have c: "claude_analyze_style env_inference_fails [(''aGVsbG8='', ''image/png'')] ''1234567890''
       = Inl ''rate limited''"
    by (simp add: env_inference_fails_def env_remote_down_def base_env_def default_settings_def)
  have d: "auto_fallback (settings env_inference_fails)"
    by (simp add: env_inference_fails_def env_remote_down_def base_env_def default_settings_def)
  have f: "offline_analyze_style env_inference_fails [''ref1.png''] ''1234567890''
         (settings env_inference_fails)
       = ([OfflineAnalysis, ModelLoad, Inference], Inl (InferenceFailed ''out of memory''))"
    by (simp add: env_inference_fails_def env_remote_down_def base_env_def default_settings_def
        use_api_def has_api_key_def offline_analyze_style_def check_system_requirements_def)
  from fallback_failure_reports_local_cause [OF a b c d f]
  have "analyze_style env_inference_fails [''ref1.png''] ''1234567890'' =
       ([ClaudeRequest,
         LogWarn ''API analysis failed: rate limited. Attempting offline fallback...'',
         OfflineAnalysis, ModelLoad, Inference],
        Inl ''Offline analysis error: Inference failed: out of memory'')"
    by simp
  with a b c d f show ?thesis by simp
qed

text \<open>
  Claim C1 as stated fails: the remote backend fails with \<^verbatim>\<open>rate limited\<close>, the model
  of the local backend is not downloaded, and the terminal error names the local cause
  only; the remote cause does not occur in it.
\<close>

theorem fallback_failure_drops_remote_cause:
  "use_api env_both_down
   \<and> auto_fallback (settings env_both_down)
   \<and> claude_analyze_style env_both_down [(''aGVsbG8='', ''image/png'')] ''1234567890''
     = Inl ''rate limited''
   \<and> snd (offline_analyze_style env_both_down [''ref1.png''] ''1234567890'' (settings env_both_down))
       = Inl ModelNotFound
   \<and> snd (analyze_style env_both_down [''ref1.png''] ''1234567890'')
       = Inl ''Offline analysis error: Model not found. Please download the model first.''
   \<and> \<not> includes_str
         ''Offline analysis error: Model not found. Please download the model first.''
         ''rate limited''"
  by (simp add: env_both_down_def env_remote_down_def base_env_def default_settings_def
        use_api_def has_api_key_def offline_analyze_style_def check_system_requirements_def analyze_style_def offline_mode_def)

text \<open>
  Claim C4. For every run in which fallback is enabled, the remote attempt is made and
  fails, and the local attempt that follows succeeds, the result has
  \<^verbatim>\<open>mode_used = "offline"\<close> and \<^verbatim>\<open>fallback_used = true\<close>, and carries the payload of the
  local backend.
\<close>

theorem fallback_success_reports_offline:
  assumes "auto_fallback (settings e)"
    and "use_api e"
    and "encode_images e paths = Inr image_data"
    and "claude_analyze_style e image_data sref = Inl remote_err"
    and "snd (offline_analyze_style e paths sref (settings e)) = Inr payload"
  shows "snd (analyze_style e paths sref)
           = Inr \<lparr> data = payload, mode_used = ''offline'', fallback_used = True \<rparr>"
proof -
  obtain tr where "offline_analyze_style e paths sref (settings e) = (tr, Inr payload)"
    using assms(5) by (cases "offline_analyze_style e paths sref (settings e)") simp
  with assms(2) show ?thesis
    by (simp add: remote_failure_with_fallback [OF assms(2-4) assms(1)] offline_mode_def)
qed

theorem fallback_success_reports_offline_witness:
  "auto_fallback (settings env_remote_down)
   \<and> use_api env_remote_down
   \<and> encode_images env_remote_down [''ref1.png''] = Inr [(''aGVsbG8='', ''image/png'')]
   \<and> claude_analyze_style env_remote_down [(''aGVsbG8='', ''image/png'')] ''1234567890''
       = Inl ''rate limited''
   \<and> snd (offline_analyze_style env_remote_down [''ref1.png''] ''1234567890''
              (settings env_remote_down))
       = Inr ''local specification JSON''
   \<and> snd (analyze_style env_remote_down [''ref1.png''] ''1234567890'')
       = Inr \<lparr> data = ''local specification JSON'', mode_used = ''offline'',
                fallback_used = True \<rparr>"
proof -
  have a: "auto_fallback (settings env_remote_down)"
    by (simp add: env_remote_down_def base_env_def default_settings_def)
  have b: "use_api env_remote_down"
    by (simp add: env_remote_down_def base_env_def default_settings_def
        use_api_def has_api_key_def offline_analyze_style_def check_system_requirements_def)
  have c: "encode_images env_remote_down [''ref1.png''] = Inr [(''aGVsbG8='', ''image/png'')]"
    by (simp add: env_remote_down_def base_env_def default_settings_def)
  have d: "claude_analyze_style env_remote_down [(''aGVsbG8='', ''image/png'')] ''1234567890''
       = Inl ''rate limited''"
    by (simp add: env_remote_down_def base_env_def default_settings_def)
  have f: "snd (offline_analyze_style env_remote_down [''ref1.png''] ''1234567890''
              (settings env_remote_down))
       = Inr ''local specification JSON''"
    by (simp add: env_remote_down_def base_env_def default_settings_def
        use_api_def has_api_key_def offline_analyze_style_def check_system_requirements_def)
  from fallback_success_reports_offline [OF a b c d f] a b c d f show ?thesis by simp
qed

text \<open>
  Claim C5. For every run in which fallback is disabled and the remote attempt fails,
  the invocation fails with the error of the remote backend (behind the prefix
  \<^verbatim>\<open>Claude API error:\<close>), and the local backend is invoked zero times.
\<close>

theorem no_fallback_surfaces_remote_error:
  assumes "\<not> auto_fallback (settings e)"
    and "use_api e"
    and "encode_images e paths = Inr image_data"
    and "claude_analyze_style e image_data sref = Inl remote_err"
  shows "analyze_style e paths sref = ([ClaudeRequest], Inl (''Claude API error: '' @ remote_err))
         \<and> count_list (fst (analyze_style e paths sref)) OfflineAnalysis = 0
         \<and> count_list (fst (analyze_style e paths sref)) Inference = 0"
  using assms by (simp add: analyze_style_def)

theorem no_fallback_surfaces_remote_error_witness:
  "\<not> auto_fallback (settings env_no_fallback)
   \<and> use_api env_no_fallback
   \<and> encode_images env_no_fallback [''ref1.png''] = Inr [(''aGVsbG8='', ''image/png'')]
   \<and> claude_analyze_style env_no_fallback [(''aGVsbG8='', ''image/png'')] ''1234567890''
       = Inl ''rate limited''
   \<and> analyze_style env_no_fallback [''ref1.png''] ''1234567890''
       = ([ClaudeRequest], Inl ''Claude API error: rate limited'')
   \<and> count_list (fst (analyze_style env_no_fallback [''ref1.png''] ''1234567890'')) OfflineAnalysis = 0"
proof -
  have a: "\<not> auto_fallback (settings env_no_fallback)"
    by (simp add: env_no_fallback_def env_remote_down_def base_env_def default_settings_def)
  have b: "use_api env_no_fallback"
    by (simp add: env_no_fallback_def env_remote_down_def base_env_def default_settings_def
        use_api_def has_api_key_def offline_analyze_style_def check_system_requirements_def)
  have c: "encode_images env_no_fallback [''ref1.png''] = Inr [(''aGVsbG8='', ''image/png'')]"
    by (simp add: env_no_fallback_def env_remote_down_def base_env_def default_settings_def)
  have d: "claude_analyze_style env_no_fallback [(''aGVsbG8='', ''image/png'')] ''1234567890''
       = Inl ''rate limited''"
    by (simp add: env_no_fallback_def env_remote_down_def base_env_def default_settings_def)
  from no_fallback_surfaces_remote_error [OF a b c d] a b c d show ?thesis by simp
qed

text \<open>Without a key, the command goes to the local backend in every mode, whatever
  the fallback setting.\<close>

lemma no_key_goes_offline:
  "\<not> has_api_key e \<Longrightarrow> analyze_style e paths sref = offline_mode e paths sref"
  by (simp add: analyze_style_def use_api_def split: analysis_mode.splits)

text \<open>
  Claim C3 asks that a run in mode \<^verbatim>\<open>CloudAPI\<close> with no credential and fallback
  disabled fails at once, the local backend never attempted. In \<open>env_remote_no_key\<close>
  the command runs the local backend and returns its payload.
\<close>

theorem remote_mode_without_key_runs_local:
  "analysis_mode (settings env_remote_no_key) = CloudAPI
   \<and> \<not> has_api_key env_remote_no_key
   \<and> \<not> auto_fallback (settings env_remote_no_key)
   \<and> analyze_style env_remote_no_key [''ref1.png''] ''1234567890''
       = ([OfflineAnalysis, ModelLoad, Inference],
          Inr \<lparr> data = ''local specification JSON'', mode_used = ''offline'',
                 fallback_used = False \<rparr>)"
  by (simp add: env_remote_no_key_def base_env_def default_settings_def
        use_api_def has_api_key_def offline_analyze_style_def check_system_requirements_def analyze_style_def offline_mode_def)

end
